theory Spec2Isabelle
  imports Complex_Main "HOL-Library.AList"
begin

section \<open>Data model\<close>

text \<open>
  The documents of the four Mongoose schemas, with the fields the betting, pricing and
  settlement code reads or writes. A JavaScript \<open>Number\<close> is modelled as a real (stakes
  are integers, but payouts \<open>amount / oddsAtTime\<close> and prices are not, and balances
  receive payouts); rounding of IEEE doubles is not modelled. Dates are milliseconds
  since the epoch. Object ids are natural numbers.
\<close>

datatype bet_status = Active | Won | Lost | Refunded

datatype market_status = Open | Closed | Resolved | Cancelled

datatype market_type = Binary | Multiple | Range

text \<open>
  The strings the routes pass as a transaction's \<open>type\<close>. The enum of the Transaction
  schema lists bet, win, refund, admin_adjustment, deposit and withdrawal; the body of
  the settlement loop also names \<open>'loss'\<close>, which is not in that enum.
\<close>

datatype txn_type = TBet | TWin | TLoss | TRefund | TAdminAdjustment | TDeposit | TWithdrawal

record user =
  balance :: real
  totalWinnings :: real
  totalBets :: nat
  winningBets :: nat
  winRate :: real
  achievements :: "string list"

record market =
  mtype :: market_type
  options :: "string list"
  endDate :: int
  mstatus :: market_status
  currentOdds :: "(string \<times> real) list"
  totalVolume :: real
  liquidity :: real
  resolution :: "string option"
  resolutionDate :: "int option"
  participantCount :: nat

record bet =
  betId :: nat
  userId :: nat
  marketId :: nat
  option :: string
  amount :: real
  oddsAtTime :: real
  potentialPayout :: real
  status :: bet_status
  createdAt :: int
  settledAt :: "int option"
  actualPayout :: real

record txn =
  tUserId :: nat
  ttype :: txn_type
  tamount :: real
  balanceBefore :: real
  balanceAfter :: real
  relatedBetId :: "nat option"
  relatedMarketId :: "nat option"

section \<open>Bet and User methods\<close>

definition calculatePotentialPayout :: "bet \<Rightarrow> bet" where
  "calculatePotentialPayout b = b\<lparr>potentialPayout := amount b / oddsAtTime b\<rparr>"

definition settle :: "string \<Rightarrow> int \<Rightarrow> bet \<Rightarrow> bet" where
  "settle marketResolution now b =
     (let b1 = b\<lparr>settledAt := Some now\<rparr>
      in if option b1 = marketResolution
         then b1\<lparr>status := Won, actualPayout := potentialPayout b1\<rparr>
         else b1\<lparr>status := Lost, actualPayout := 0\<rparr>)"

definition refund :: "int \<Rightarrow> bet \<Rightarrow> bet" where
  "refund now b = b\<lparr>status := Refunded, actualPayout := amount b, settledAt := Some now\<rparr>"

definition updateWinRate :: "user \<Rightarrow> user" where
  "updateWinRate u =
     (if totalBets u > 0
      then u\<lparr>winRate := (real (winningBets u) / real (totalBets u)) * 100\<rparr>
      else u)"

definition addAchievement :: "string \<Rightarrow> user \<Rightarrow> user" where
  "addAchievement achievementType u =
     (if achievementType \<in> set (achievements u) then u
      else u\<lparr>achievements := achievements u @ [achievementType]\<rparr>)"

section \<open>Market pricing\<close>

text \<open>
  The plain objects \<open>odds\<close> and \<open>poolByOption\<close> are association lists: assigning to a
  key replaces its value in place or appends the key, as \<open>AList.update\<close> does. (For
  keys that look like array indices \<open>Object.entries\<close> lists them first; no property below
  depends on the order.) Option labels are taken not to be names of
  \<open>Object.prototype\<close> members, so a key that was never assigned reads \<open>undefined\<close>.
\<close>

definition optionAt :: "string list \<Rightarrow> nat \<Rightarrow> string" where
  \<comment> \<open>\<open>this.options[i]\<close> used as a property key: out of range it is \<open>undefined\<close>,
      which becomes the key "undefined".\<close>
  "optionAt xs i = (if i < length xs then xs ! i else ''undefined'')"

definition falsy :: "real option \<Rightarrow> bool" where
  \<comment> \<open>\<open>!x\<close> for a Number or \<open>undefined\<close>.\<close>
  "falsy x = (case x of None \<Rightarrow> True | Some v \<Rightarrow> v = 0)"

definition stakeOn :: "bet list \<Rightarrow> string \<Rightarrow> real" where
  \<comment> \<open>The pool of an option as the glossary defines it: the sum of the stakes of the
      given (active) bets on that option. \<open>poolByOption\<close> below is the code's computation.\<close>
  "stakeOn bs opt = sum_list (map amount (filter (\<lambda>b. option b = opt) bs))"

definition priceSum :: "market \<Rightarrow> real" where
  \<comment> \<open>The sum of the values of the market's price vector.\<close>
  "priceSum m = sum_list (map snd (currentOdds m))"

definition calculateInitialOdds :: "market \<Rightarrow> market" where
  "calculateInitialOdds m =
     (let odds =
        (if mtype m = Binary
         then AList.update (optionAt (options m) 1) (0.5::real)
                (AList.update (optionAt (options m) 0) 0.5 [])
         else (let equalOdds = 1 / real (length (options m))
               in foldl (\<lambda>odds opt. AList.update opt equalOdds odds) [] (options m)))
      in m\<lparr>currentOdds := odds\<rparr>)"

definition poolByOption :: "bet list \<Rightarrow> (string \<times> real) list" where
  "poolByOption bs =
     foldl (\<lambda>pool b.
              AList.update (option b)
                ((case map_of pool (option b) of None \<Rightarrow> 0 | Some v \<Rightarrow> v) + amount b) pool)
           [] bs"

definition totalPool :: "bet list \<Rightarrow> real" where
  "totalPool bs = foldl (\<lambda>a b. a + b) 0 (map snd (poolByOption bs))"

definition lmsrOdds :: "market \<Rightarrow> bet list \<Rightarrow> (string \<times> real) list" where
  \<comment> \<open>The two \<open>forEach\<close> passes of \<open>updateOdds\<close> that fill \<open>odds\<close>.\<close>
  "lmsrOdds m bs =
     (let pools = poolByOption bs;
          total = totalPool bs;
          odds1 = foldl (\<lambda>odds opt.
                    (let pool = (case map_of pools opt of None \<Rightarrow> 0 | Some v \<Rightarrow> v);
                         otherPool = total - pool
                     in AList.update opt (1 / (1 + exp ((otherPool - pool) / liquidity m))) odds))
                  [] (map fst pools)
      in foldl (\<lambda>odds opt.
                 if falsy (map_of odds opt)
                 then AList.update opt (1 / (1 + exp (total / liquidity m))) odds
                 else odds)
               odds1 (options m))"

definition recomputeOdds :: "market \<Rightarrow> bet list \<Rightarrow> market" where
  \<comment> \<open>What \<open>updateOdds\<close> does to the market document, given the active bets it found.\<close>
  "recomputeOdds m bs =
     (if totalPool bs = 0 then calculateInitialOdds m
      else m\<lparr>currentOdds := lmsrOdds m bs, totalVolume := totalPool bs\<rparr>)"

definition isOpen :: "int \<Rightarrow> market \<Rightarrow> bool" where
  "isOpen now m = (mstatus m = Open \<and> now < endDate m)"

definition resolve :: "string \<Rightarrow> int \<Rightarrow> market \<Rightarrow> market" where
  "resolve res now m = m\<lparr>mstatus := Resolved, resolution := Some res, resolutionDate := Some now\<rparr>"

section \<open>Persistence\<close>

text \<open>
  The database: the four collections. Bets and ledger entries are kept in insertion
  order; the ledger is only ever appended to.
\<close>

record store =
  users :: "nat \<rightharpoonup> user"
  markets :: "nat \<rightharpoonup> market"
  bets :: "bet list"
  ledger :: "txn list"

text \<open>
  A MongoDB session with a transaction. Some reads and writes of the handlers carry the
  session (\<open>save({ session })\<close>, \<open>.session(session)\<close>) and some do not
  (\<open>createTransaction\<close> and \<open>updateOdds\<close> call \<open>findById\<close>, \<open>find\<close> and \<open>save()\<close>
  without it). The state of a running transaction has three parts: \<open>outside\<close> is the
  database as everyone outside the transaction sees it, \<open>inside\<close> is what the session
  sees (the database with the session's uncommitted writes), and \<open>written\<close> holds the
  ids of the user documents the session has written.

  A read or a write with the session uses \<open>inside\<close>. A read without the session sees
  \<open>outside\<close>: it does not see the session's uncommitted writes. A write without the
  session lands in the database (and the session sees it too), unless it targets a
  document the open transaction has written: MongoDB makes such a write wait until the
  transaction ends. \<open>commitTransaction\<close> keeps \<open>inside\<close>, \<open>abortTransaction\<close> keeps
  \<open>outside\<close>.

  Only user documents are written both with and without the session by one handler, so
  only those are tracked in \<open>written\<close>.
\<close>

record txstate =
  outside :: store
  inside :: store
  written :: "nat set"

definition startTransaction :: "store \<Rightarrow> txstate" where
  "startTransaction s = \<lparr>outside = s, inside = s, written = {}\<rparr>"

definition withSession :: "(store \<Rightarrow> store) \<Rightarrow> txstate \<Rightarrow> txstate" where
  "withSession w t = t\<lparr>inside := w (inside t)\<rparr>"

definition withoutSession :: "(store \<Rightarrow> store) \<Rightarrow> txstate \<Rightarrow> txstate" where
  "withoutSession w t = t\<lparr>outside := w (outside t), inside := w (inside t)\<rparr>"

definition commitTransaction :: "txstate \<Rightarrow> store" where
  "commitTransaction t = inside t"

definition abortTransaction :: "txstate \<Rightarrow> store" where
  "abortTransaction t = outside t"

text \<open>
  Writes. \<open>save\<close> sends the modified paths of a document only, so a write sets fields
  of the stored document: \<open>updateUser\<close> takes the assignment of the modified fields.
  A bet is modified by \<open>settle\<close> and \<open>refund\<close> only, in the three fields \<open>saveBet\<close>
  writes. A market document is written by the one handler that loaded it, so writing
  the handler's copy is the same as writing its modified fields.
\<close>

definition updateUser :: "nat \<Rightarrow> (user \<Rightarrow> user) \<Rightarrow> store \<Rightarrow> store" where
  "updateUser uid f s = s\<lparr>users := (users s)(uid := map_option f (users s uid))\<rparr>"

definition sessionSaveUser :: "nat \<Rightarrow> (user \<Rightarrow> user) \<Rightarrow> txstate \<Rightarrow> txstate" where
  \<comment> \<open>\<open>user.save({ session })\<close>: the write, and the document is now held by the transaction.\<close>
  "sessionSaveUser uid f t =
     t\<lparr>inside := updateUser uid f (inside t), written := insert uid (written t)\<rparr>"

definition insertBet :: "bet \<Rightarrow> store \<Rightarrow> store" where
  "insertBet b s = s\<lparr>bets := bets s @ [b]\<rparr>"

definition saveBet :: "bet \<Rightarrow> store \<Rightarrow> store" where
  "saveBet b s =
     s\<lparr>bets := map (\<lambda>x. if betId x = betId b
                          then x\<lparr>status := status b, actualPayout := actualPayout b,
                                 settledAt := settledAt b\<rparr>
                          else x) (bets s)\<rparr>"

definition saveMarket :: "nat \<Rightarrow> market \<Rightarrow> store \<Rightarrow> store" where
  "saveMarket mid m s = s\<lparr>markets := (markets s)(mid \<mapsto> m)\<rparr>"

definition insertTransaction :: "txn \<Rightarrow> store \<Rightarrow> store" where
  "insertTransaction tr s = s\<lparr>ledger := ledger s @ [tr]\<rparr>"

definition findActiveBets :: "nat \<Rightarrow> store \<Rightarrow> bet list" where
  \<comment> \<open>\<open>Bet.find({ marketId, status: 'active' })\<close>\<close>
  "findActiveBets mid s = filter (\<lambda>b. marketId b = mid \<and> status b = Active) (bets s)"

text \<open>
  Schema validators that run on \<open>save\<close> and can reject a value the handlers compute:
  \<open>min: 0\<close> on the user's balance, and the enum of the transaction's type.
\<close>

definition validUser :: "user \<Rightarrow> bool" where
  "validUser u = (0 \<le> balance u)"

definition validTransactionType :: "txn_type \<Rightarrow> bool" where
  "validTransactionType ty = (ty \<in> {TBet, TWin, TRefund, TAdminAdjustment, TDeposit, TWithdrawal})"

text \<open>
  How a call ends: it returns, it raises, or it waits on a write to a document that the
  open transaction holds. The handler awaits that write before it can reach
  \<open>commitTransaction\<close>, so it cannot go on; the model ends the handler there. What the
  server does once the lifetime of the transaction runs out is not modelled.
\<close>

datatype error = UserNotFound | ValidationError | TypeError | ReferenceError

datatype outcome = Returned | Raised error | Waits

section \<open>Transaction.createTransaction\<close>

text \<open>
  \<open>User.findById\<close>, \<open>user.save()\<close> and \<open>transaction.save()\<close> carry no session. The
  method reads the balance the database holds outside any transaction, builds the entry
  from it, adds the amount and saves the user, then saves the entry. The validators run
  before a write is sent. An exception leaves the writes made before it in place.
\<close>

definition createTransaction ::
  "nat \<Rightarrow> txn_type \<Rightarrow> real \<Rightarrow> nat option \<Rightarrow> nat option \<Rightarrow> txstate \<Rightarrow> outcome \<times> txstate" where
  "createTransaction uid ty amt relBet relMarket t =
     (case users (outside t) uid of
        None \<Rightarrow> (Raised UserNotFound, t)
      | Some user \<Rightarrow>
          (let transaction = \<lparr>tUserId = uid, ttype = ty, tamount = amt,
                               balanceBefore = balance user,
                               balanceAfter = balance user + amt,
                               relatedBetId = relBet, relatedMarketId = relMarket\<rparr>;
               user1 = user\<lparr>balance := balance user + amt\<rparr>
           in if \<not> validUser user1 then (Raised ValidationError, t)
              else if uid \<in> written t then (Waits, t)
              else
                (let t1 = withoutSession (updateUser uid (\<lambda>u. u\<lparr>balance := balance user1\<rparr>)) t
                 in if \<not> validTransactionType ty then (Raised ValidationError, t1)
                    else (Returned, withoutSession (insertTransaction transaction) t1))))"

section \<open>Market.updateOdds\<close>

definition updateOdds :: "nat \<Rightarrow> market \<Rightarrow> txstate \<Rightarrow> market \<times> txstate" where
  \<comment> \<open>\<open>Bet.find\<close> and \<open>this.save()\<close> carry no session. With a zero pool the method
      returns after \<open>calculateInitialOdds\<close>, without saving.\<close>
  "updateOdds mid m t =
     (let found = findActiveBets mid (outside t);
          m1 = recomputeOdds m found
      in if totalPool found = 0 then (m1, t)
         else (m1, withoutSession (saveMarket mid m1) t))"

section \<open>The handlers\<close>

text \<open>
  What a handler did: \<open>Rejected\<close> is an early return with its HTTP status and message,
  made before any write; \<open>ServerError\<close> an exception outside a transaction, caught by
  the handler's outer \<open>catch\<close> (status 500); \<open>Aborted\<close> an exception inside the
  \<open>try\<close> block of a transaction (\<open>abortTransaction\<close>, then status 500); \<open>Blocked\<close>
  says that the handler waits on a write held up by its own open transaction, and comes
  with the database as it stands then, without the session's writes; \<open>Committed\<close> says
  that \<open>commitTransaction\<close> was reached; \<open>Answered\<close> is the regular answer of
  the resolve handler.

  The broadcast and the HTTP response that follow a commit are not part of the model:
  \<open>Committed\<close> describes the database, not the status code.

  \<open>req.user\<close> is the stored document of the authenticated user. The auth middleware
  is not among the sources: the model answers a request whose user is not stored with
  401, and the admin check of the resolve route is left out.
\<close>

datatype response =
    Rejected nat string
  | ServerError error
  | Aborted error
  | Blocked
  | Committed
  | Answered

definition isRejected :: "response \<Rightarrow> bool" where
  "isRejected r = (case r of Rejected code msg \<Rightarrow> True | _ \<Rightarrow> False)"

definition finishTransaction :: "outcome \<times> txstate \<Rightarrow> response \<times> store" where
  \<comment> \<open>The end of a \<open>try\<close> block: commit, or the \<open>catch\<close> block's abort.\<close>
  "finishTransaction r =
     (case r of
        (Returned, t) \<Rightarrow> (Committed, commitTransaction t)
      | (Raised e, t) \<Rightarrow> (Aborted e, abortTransaction t)
      | (Waits, t) \<Rightarrow> (Blocked, outside t))"

subsection \<open>POST /api/bets\<close>

definition placeBetDebit :: "nat \<Rightarrow> user \<Rightarrow> bet \<Rightarrow> store \<Rightarrow> outcome \<times> txstate" where
  \<comment> \<open>From \<open>startTransaction\<close> to \<open>bet.save({ session })\<close>: the debit, the counter, and
      the two saves with the session.\<close>
  "placeBetDebit uid user bet s =
     (let t0 = startTransaction s;
          user1 = user\<lparr>balance := balance user - amount bet, totalBets := totalBets user + 1\<rparr>
      in if \<not> validUser user1 then (Raised ValidationError, t0)
         else
           (let t1 = sessionSaveUser uid
                       (\<lambda>u. u\<lparr>balance := balance user1, totalBets := totalBets user1\<rparr>) t0
            in (Returned, withSession (insertBet bet) t1)))"

definition placeBetTransaction ::
  "nat \<Rightarrow> user \<Rightarrow> nat \<Rightarrow> market \<Rightarrow> bet \<Rightarrow> store \<Rightarrow> outcome \<times> txstate" where
  \<comment> \<open>The \<open>try\<close> block up to \<open>market.save({ session })\<close>. \<open>Bet.distinct\<close> carries no
      session.\<close>
  "placeBetTransaction uid user mid market bet s =
     (case placeBetDebit uid user bet s of
        (Returned, t2) \<Rightarrow>
          (case createTransaction uid TBet (- amount bet) (Some (betId bet)) (Some mid) t2 of
             (Returned, t3) \<Rightarrow>
               (let (market1, t4) = updateOdds mid market t3;
                    participants = remdups (map userId
                      (filter (\<lambda>b. marketId b = mid) (bets (outside t4))));
                    market2 = market1\<lparr>participantCount := length participants\<rparr>
                in (Returned, withSession (saveMarket mid market2) t4))
           | r \<Rightarrow> r)
      | r \<Rightarrow> r)"

definition placeBet ::
  "nat \<Rightarrow> nat \<Rightarrow> nat \<Rightarrow> string \<Rightarrow> int \<Rightarrow> int \<Rightarrow> store \<Rightarrow> response \<times> store" where
  \<comment> \<open>\<open>newId\<close> is the object id the driver gives the new bet.\<close>
  "placeBet uid newId mid opt amt now s =
     (case users s uid of
        None \<Rightarrow> (Rejected 401 ''Unauthorized'', s)
      | Some user \<Rightarrow>
          if opt = [] \<or> amt < 1 then (Rejected 400 ''Validation failed'', s)
          else if balance user < real_of_int amt then (Rejected 400 ''Insufficient balance'', s)
          else
            (case markets s mid of
               None \<Rightarrow> (Rejected 404 ''Market not found'', s)
             | Some market \<Rightarrow>
                 if \<not> isOpen now market
                 then (Rejected 400 ''Market is not open for betting'', s)
                 else if opt \<notin> set (options market)
                 then (Rejected 400 ''Invalid betting option'', s)
                 else if find (\<lambda>b. userId b = uid \<and> marketId b = mid \<and> status b = Active) (bets s)
                           \<noteq> None
                 then (Rejected 400 ''You already have an active bet on this market'', s)
                 else
                   (case map_of (currentOdds market) opt of
                      None \<Rightarrow> (Rejected 400 ''Odds not available for this option'', s)
                    | Some odds \<Rightarrow>
                        if odds = 0 then (Rejected 400 ''Odds not available for this option'', s)
                        else
                          (let bet = calculatePotentialPayout
                                 \<lparr>betId = newId, userId = uid, marketId = mid, option = opt,
                                  amount = real_of_int amt, oddsAtTime = odds,
                                  potentialPayout = 0, status = Active, createdAt = now,
                                  settledAt = None, actualPayout = 0\<rparr>
                           in case finishTransaction
                                     (placeBetTransaction uid user mid market bet s) of
                                (Committed, s1) \<Rightarrow>
                                  if totalBets user + 1 = 1
                                  then (Committed, updateUser uid
                                          (\<lambda>u. u\<lparr>achievements := achievements
                                                 (addAchievement ''first_bet'' user)\<rparr>) s1)
                                  else (Committed, s1)
                              | r \<Rightarrow> r))))"

subsection \<open>DELETE /api/bets/:id\<close>

definition cancelBetRefund :: "nat \<Rightarrow> bet \<Rightarrow> int \<Rightarrow> store \<Rightarrow> outcome \<times> txstate" where
  \<comment> \<open>From \<open>startTransaction\<close> to \<open>user.save({ session })\<close>: the refund of the bet and
      the credit, read and saved with the session.\<close>
  "cancelBetRefund uid bet now s =
     (let t0 = startTransaction s;
          bet1 = refund now bet;
          t1 = withSession (saveBet bet1) t0
      in case users (inside t1) uid of
           None \<Rightarrow> (Raised TypeError, t1)
         | Some user \<Rightarrow>
             (let user1 = user\<lparr>balance := balance user + amount bet1\<rparr>
              in if \<not> validUser user1 then (Raised ValidationError, t1)
                 else (Returned,
                       sessionSaveUser uid (\<lambda>u. u\<lparr>balance := balance user1\<rparr>) t1)))"

definition cancelBetTransaction ::
  "nat \<Rightarrow> market \<Rightarrow> bet \<Rightarrow> int \<Rightarrow> store \<Rightarrow> outcome \<times> txstate" where
  "cancelBetTransaction uid market bet now s =
     (case cancelBetRefund uid bet now s of
        (Returned, t2) \<Rightarrow>
          (case createTransaction uid TRefund (amount bet)
                  (Some (betId bet)) (Some (marketId bet)) t2 of
             (Returned, t3) \<Rightarrow>
               (let (market1, t4) = updateOdds (marketId bet) market t3
                in (Returned, t4))
           | r \<Rightarrow> r)
      | r \<Rightarrow> r)"

definition cancelBet :: "nat \<Rightarrow> nat \<Rightarrow> int \<Rightarrow> store \<Rightarrow> response \<times> store" where
  "cancelBet uid bid now s =
     (case users s uid of
        None \<Rightarrow> (Rejected 401 ''Unauthorized'', s)
      | Some _ \<Rightarrow>
          (case find (\<lambda>b. betId b = bid) (bets s) of
             None \<Rightarrow> (Rejected 404 ''Bet not found'', s)
           | Some bet \<Rightarrow>
               if userId bet \<noteq> uid then (Rejected 403 ''Access denied'', s)
               else if status bet \<noteq> Active then (Rejected 400 ''Cannot cancel settled bet'', s)
               else
                 (case markets s (marketId bet) of
                    None \<Rightarrow> (ServerError TypeError, s)
                  | Some market \<Rightarrow>
                      if \<not> isOpen now market
                      then (Rejected 400 ''Cannot cancel bet after market has closed'', s)
                      else if now - createdAt bet > 5 * 60 * 1000
                      then (Rejected 400 ''Can only cancel bets within 5 minutes of placement'', s)
                      else finishTransaction (cancelBetTransaction uid market bet now s))))"

subsection \<open>POST /api/markets/:id/resolve\<close>

text \<open>
  The handler marks the market resolved and saves it, finds the active bets and enters
  the settlement loop. The first statement of the loop body is
  \<open>mongoose.startSession()\<close>, and the file of the markets routes never declares
  \<open>mongoose\<close> (the bets routes call \<open>require('mongoose').startSession()\<close> instead).
  The statement stands before the \<open>try\<close> block of the iteration, so with one active
  bet or more the reference raises ReferenceError, the exception leaves the loop and is
  caught by the handler's outer \<open>catch\<close>: status 500, with the resolved market already
  saved. The rest of the loop body (\<open>bet.settle\<close>, the user's counters, the ledger
  entry) is never executed and has no counterpart here. Without active bets the loop
  body is not entered and the handler answers.
\<close>

definition resolveMarket :: "nat \<Rightarrow> string \<Rightarrow> int \<Rightarrow> store \<Rightarrow> response \<times> store" where
  "resolveMarket mid res now s =
     (if res = [] then (Rejected 400 ''Validation failed'', s)
      else
        (case markets s mid of
           None \<Rightarrow> (Rejected 404 ''Market not found'', s)
         | Some market \<Rightarrow>
             if mstatus market \<noteq> Open \<and> mstatus market \<noteq> Closed
             then (Rejected 400 ''Market cannot be resolved'', s)
             else if res \<notin> set (options market)
             then (Rejected 400 ''Invalid resolution option'', s)
             else
               (let market1 = resolve res now market;
                    s1 = saveMarket mid market1 s;
                    activeBets = findActiveBets mid s1
                in if activeBets = [] then (Answered, s1)
                   else (ServerError ReferenceError, s1))))"

section \<open>Balance conservation, in the words of the spec\<close>







section \<open>Example data\<close>

definition alice :: user where
  "alice = \<lparr>balance = 1000, totalWinnings = 0, totalBets = 0, winningBets = 0, winRate = 0,
             achievements = []\<rparr>"

definition yesNoMarket :: market where
  "yesNoMarket = \<lparr>mtype = Binary, options = [''yes'', ''no''], endDate = 1000000,
                   mstatus = Open, currentOdds = [(''yes'', 1 / 2), (''no'', 1 / 2)],
                   totalVolume = 0, liquidity = 1000, resolution = None,
                   resolutionDate = None, participantCount = 0\<rparr>"

definition threeWayMarket :: market where
  "threeWayMarket = \<lparr>mtype = Multiple, options = [''a'', ''b'', ''c''], endDate = 1000000,
                      mstatus = Open,
                      currentOdds = [(''a'', 1 / 3), (''b'', 1 / 3), (''c'', 1 / 3)],
                      totalVolume = 0, liquidity = 1000, resolution = None,
                      resolutionDate = None, participantCount = 0\<rparr>"

definition stake :: "nat \<Rightarrow> nat \<Rightarrow> nat \<Rightarrow> string \<Rightarrow> real \<Rightarrow> real \<Rightarrow> int \<Rightarrow> bet" where
  \<comment> \<open>An active bet as \<open>placeBet\<close> stores it.\<close>
  "stake bid uid mid opt amt odds t =
     \<lparr>betId = bid, userId = uid, marketId = mid, option = opt, amount = amt,
      oddsAtTime = odds, potentialPayout = amt / odds, status = Active, createdAt = t,
      settledAt = None, actualPayout = 0\<rparr>"

definition oneBetBook :: store where
  "oneBetBook = \<lparr>users = [1 \<mapsto> alice], markets = [7 \<mapsto> yesNoMarket],
                  bets = [stake 100 1 7 ''yes'' 100 (1 / 2) 0], ledger = []\<rparr>"

definition threeWayBook :: store where
  "threeWayBook = \<lparr>users = [1 \<mapsto> alice], markets = [9 \<mapsto> threeWayMarket],
                    bets = [stake 200 1 9 ''a'' 1000 (1 / 3) 0], ledger = []\<rparr>"

definition emptyBook :: store where
  "emptyBook = \<lparr>users = [1 \<mapsto> alice], markets = [7 \<mapsto> yesNoMarket, 9 \<mapsto> threeWayMarket],
                 bets = [], ledger = []\<rparr>"

definition bob :: user where
  \<comment> \<open>A user as a committed placement of 100 from a balance of 1000 would leave it.\<close>
  "bob = \<lparr>balance = 900, totalWinnings = 0, totalBets = 1, winningBets = 0, winRate = 0,
           achievements = [''first_bet'']\<rparr>"

definition placedBook :: store where
  "placedBook = \<lparr>users = [2 \<mapsto> bob], markets = [7 \<mapsto> yesNoMarket],
                  bets = [stake 103 2 7 ''yes'' 100 (1 / 2) 0],
                  ledger = [\<lparr>tUserId = 2, ttype = TBet, tamount = - 100, balanceBefore = 1000,
                             balanceAfter = 900, relatedBetId = Some 103,
                             relatedMarketId = Some 7\<rparr>]\<rparr>"

definition threeBetBook :: store where
  \<comment> \<open>Three active bets on one market; the user of the second bet is not stored.\<close>
  "threeBetBook = \<lparr>users = [1 \<mapsto> alice, 3 \<mapsto> alice], markets = [7 \<mapsto> yesNoMarket],
                    bets = [stake 100 1 7 ''yes'' 100 (1 / 2) 0,
                            stake 101 2 7 ''yes'' 50 (1 / 2) 0,
                            stake 102 3 7 ''yes'' 10 (1 / 2) 0],
                    ledger = []\<rparr>"

section \<open>Association lists, pools and prices\<close>

lemma one_plus_exp_pos: "0 < 1 + exp (x::real)"
  by (simp add: add_pos_pos)

lemma price_nonzero: "1 / (1 + exp (x::real)) \<noteq> 0"
  using one_plus_exp_pos [of x] by simp

lemma map_of_foldl_update:
  "map_of (foldl (\<lambda>od k. AList.update k (g k) od) od0 ks) x
     = (if x \<in> set ks then Some (g x) else map_of od0 x)"
  by (induction ks arbitrary: od0) (auto simp: update_conv')

lemma map_of_foldl_fill:
  "map_of (foldl (\<lambda>od k. if falsy (map_of od k) then AList.update k c od else od) od0 ks) x
     = (if x \<in> set ks \<and> falsy (map_of od0 x) then Some c else map_of od0 x)"
  by (induction ks arbitrary: od0) (auto simp: update_conv' falsy_def split: option.splits)

lemma keys_foldl_update:
  "fst ` set (foldl (\<lambda>od k. AList.update k (g k) od) od0 ks) = fst ` set od0 \<union> set ks"
  by (induction ks arbitrary: od0) (simp_all add: AList.dom_update Un_ac)

lemma distinct_foldl_update:
  "distinct (map fst od0) \<Longrightarrow> distinct (map fst (foldl (\<lambda>od k. AList.update k (g k) od) od0 ks))"
  by (induction ks arbitrary: od0) (auto simp: distinct_update)

lemma keys_foldl_fill:
  "fst ` set (foldl (\<lambda>od k. if falsy (map_of od k) then AList.update k c od else od) od0 ks)
     = fst ` set od0 \<union> set ks"
proof (induction ks arbitrary: od0)
  case Nil
  show ?case by simp
next
  case (Cons k ks)
  have "k \<in> fst ` set od0" if "\<not> falsy (map_of od0 k)"
    using that by (auto simp: falsy_def split: option.splits dest: map_of_SomeD intro: rev_image_eqI)
  then show ?case
    by (simp add: Cons.IH AList.dom_update insert_absorb Un_ac)
qed

lemma distinct_foldl_fill:
  "distinct (map fst od0) \<Longrightarrow>
   distinct (map fst (foldl (\<lambda>od k. if falsy (map_of od k) then AList.update k c od else od) od0 ks))"
  by (induction ks arbitrary: od0) (auto simp: distinct_update)

lemma sum_list_alist:
  "distinct (map fst al) \<Longrightarrow> sum_list (map snd al) = (\<Sum>k\<in>fst ` set al. the (map_of al k))"
proof (induction al)
  case Nil
  show ?case by simp
next
  case (Cons p al)
  obtain k v where p: "p = (k, v)" by (cases p)
  from Cons.prems p have k: "k \<notin> fst ` set al" and d: "distinct (map fst al)" by auto
  have "(\<Sum>x\<in>fst ` set al. the (map_of ((k, v) # al) x)) = (\<Sum>x\<in>fst ` set al. the (map_of al x))"
    using k by (intro sum.cong) auto
  with Cons.IH [OF d] k p show ?case by simp
qed

lemma poolByOption_snoc:
  "poolByOption (bs @ [b]) =
     AList.update (option b)
       ((case map_of (poolByOption bs) (option b) of None \<Rightarrow> 0 | Some v \<Rightarrow> v) + amount b)
       (poolByOption bs)"
  by (simp add: poolByOption_def)

lemma stakeOn_none: "opt \<notin> option ` set bs \<Longrightarrow> stakeOn bs opt = 0"
  by (induction bs) (auto simp: stakeOn_def)

lemma stakeOn_snoc:
  "stakeOn (bs @ [b]) opt = stakeOn bs opt + (if option b = opt then amount b else 0)"
  by (simp add: stakeOn_def)

lemma poolByOption_lookup:
  "map_of (poolByOption bs) opt
     = (if opt \<in> option ` set bs then Some (stakeOn bs opt) else None)"
proof (induction bs arbitrary: opt rule: rev_induct)
  case Nil
  show ?case by (simp add: poolByOption_def)
next
  case (snoc b bs)
  have old: "(case map_of (poolByOption bs) (option b) of None \<Rightarrow> 0 | Some v \<Rightarrow> v)
               = stakeOn bs (option b)"
    by (simp add: snoc.IH stakeOn_none)
  show ?case
    unfolding poolByOption_snoc update_conv' old
    by (simp add: snoc.IH stakeOn_snoc)
qed

lemma poolByOption_keys: "fst ` set (poolByOption bs) = option ` set bs"
proof -
  have "dom (map_of (poolByOption bs)) = option ` set bs"
    by (auto simp: poolByOption_lookup dom_def)
  then show ?thesis by (simp add: dom_map_of_conv_image_fst)
qed

lemma poolByOption_distinct: "distinct (map fst (poolByOption bs))"
  by (induction bs rule: rev_induct) (simp_all add: poolByOption_snoc distinct_update, simp add: poolByOption_def)

lemma pool_value: "(case map_of (poolByOption bs) opt of None \<Rightarrow> 0 | Some v \<Rightarrow> v) = stakeOn bs opt"
  by (simp add: poolByOption_lookup stakeOn_none)

lemma foldl_plus: "foldl (\<lambda>a b. a + b) (z::real) xs = z + sum_list xs"
  by (induction xs arbitrary: z) simp_all

lemma sum_stakes: "(\<Sum>k\<in>option ` set bs. stakeOn bs k) = sum_list (map amount bs)"
proof (induction bs rule: rev_induct)
  case Nil
  show ?case by simp
next
  case (snoc b bs)
  let ?K = "option ` set bs"
  have fin: "finite ?K" by simp
  have step: "stakeOn (bs @ [b]) k = stakeOn bs k + (if k = option b then amount b else 0)" for k
    by (auto simp: stakeOn_snoc)
  have zero: "stakeOn bs (option b) = 0" if "option b \<notin> ?K"
    using that by (rule stakeOn_none)
  have "(\<Sum>k\<in>insert (option b) ?K. stakeOn (bs @ [b]) k)
          = (\<Sum>k\<in>insert (option b) ?K. stakeOn bs k)
            + (\<Sum>k\<in>insert (option b) ?K. if k = option b then amount b else 0)"
    by (simp add: step sum.distrib)
  also have "(\<Sum>k\<in>insert (option b) ?K. if k = option b then amount b else 0) = amount b"
    using fin by simp
  also have "(\<Sum>k\<in>insert (option b) ?K. stakeOn bs k) = (\<Sum>k\<in>?K. stakeOn bs k)"
    using fin zero by (cases "option b \<in> ?K") (simp_all add: insert_absorb)
  finally show ?case
    using snoc.IH by simp
qed

lemma totalPool_sum: "totalPool bs = sum_list (map amount bs)"
proof -
  have "totalPool bs = sum_list (map snd (poolByOption bs))"
    by (simp add: totalPool_def foldl_plus)
  also have "\<dots> = (\<Sum>k\<in>fst ` set (poolByOption bs). the (map_of (poolByOption bs) k))"
    by (rule sum_list_alist) (rule poolByOption_distinct)
  also have "\<dots> = (\<Sum>k\<in>option ` set bs. stakeOn bs k)"
    by (simp add: poolByOption_keys poolByOption_lookup)
  finally show ?thesis by (simp add: sum_stakes)
qed

lemma lmsrOdds_lookup:
  "map_of (lmsrOdds m bs) opt =
     (if opt \<in> option ` set bs \<union> set (options m)
      then Some (1 / (1 + exp (((totalPool bs - stakeOn bs opt) - stakeOn bs opt) / liquidity m)))
      else None)"
proof -
  let ?price = "\<lambda>k. 1 / (1 + exp (((totalPool bs - stakeOn bs k) - stakeOn bs k) / liquidity m))"
  let ?odds1 = "foldl (\<lambda>odds k. AList.update k (?price k) odds) [] (map fst (poolByOption bs))"
  have odds1: "map_of ?odds1 k = (if k \<in> option ` set bs then Some (?price k) else None)" for k
    using poolByOption_keys [of bs] by (simp add: map_of_foldl_update)
  have eq: "lmsrOdds m bs =
      foldl (\<lambda>odds k. if falsy (map_of odds k)
                       then AList.update k (1 / (1 + exp (totalPool bs / liquidity m))) odds
                       else odds) ?odds1 (options m)"
    by (simp add: lmsrOdds_def Let_def pool_value)
  have nostake: "stakeOn bs opt = 0" if "opt \<notin> option ` set bs"
    using that by (rule stakeOn_none)
  have nz: "\<not> falsy (Some (?price k))" for k
    using price_nonzero by (simp add: falsy_def del: divide_eq_0_iff)
  show ?thesis
  proof (cases "opt \<in> option ` set bs")
    case True
    then show ?thesis
      unfolding eq map_of_foldl_fill odds1 using nz by simp
  next
    case False
    then show ?thesis
      unfolding eq map_of_foldl_fill odds1 by (simp add: falsy_def nostake)
  qed
qed

lemma lmsrOdds_keys: "fst ` set (lmsrOdds m bs) = option ` set bs \<union> set (options m)"
proof -
  have "dom (map_of (lmsrOdds m bs)) = option ` set bs \<union> set (options m)"
    unfolding dom_def lmsrOdds_lookup by auto
  then show ?thesis by (simp add: dom_map_of_conv_image_fst)
qed

lemma lmsrOdds_distinct: "distinct (map fst (lmsrOdds m bs))"
  unfolding lmsrOdds_def Let_def
  by (intro distinct_foldl_fill distinct_foldl_update) simp

lemma updateOdds_market:
  "fst (updateOdds mid m t) = recomputeOdds m (findActiveBets mid (outside t))"
  by (simp add: updateOdds_def Let_def)

section \<open>Pricing\<close>

text \<open>
  Claim C4. For a market with positive liquidity whose active bets have a positive total
  pool, \<open>updateOdds\<close> gives every option \<open>opt\<close> of the market (and every option
  with an active bet) the price \<open>1 / (1 + exp (((totalPool - p) - p) / liquidity))\<close>,
  where \<open>p\<close> is the sum of the active stakes on \<open>opt\<close>; for an option without
  stakes this is the same formula at \<open>p = 0\<close>.
\<close>

theorem lmsr_price_formula:
  assumes "0 < liquidity m"
    and "0 < totalPool (findActiveBets mid (outside t))"
    and "opt \<in> set (options m) \<or> opt \<in> option ` set (findActiveBets mid (outside t))"
  shows "map_of (currentOdds (fst (updateOdds mid m t))) opt
           = Some (1 / (1 + exp (((totalPool (findActiveBets mid (outside t))
                                    - stakeOn (findActiveBets mid (outside t)) opt)
                                   - stakeOn (findActiveBets mid (outside t)) opt) / liquidity m)))
         \<and> (stakeOn (findActiveBets mid (outside t)) opt = 0 \<longrightarrow>
              map_of (currentOdds (fst (updateOdds mid m t))) opt
                = Some (1 / (1 + exp (((totalPool (findActiveBets mid (outside t)) - 0) - 0)
                                       / liquidity m))))"
proof -
  let ?bs = "findActiveBets mid (outside t)"
  from assms(2) have nz: "totalPool ?bs \<noteq> 0" by simp
  have m: "currentOdds (fst (updateOdds mid m t)) = lmsrOdds m ?bs"
    using nz by (simp add: updateOdds_market recomputeOdds_def)
  from assms(3) have "opt \<in> option ` set ?bs \<union> set (options m)" by auto
  then have "map_of (lmsrOdds m ?bs) opt
      = Some (1 / (1 + exp (((totalPool ?bs - stakeOn ?bs opt) - stakeOn ?bs opt) / liquidity m)))"
    by (simp only: lmsrOdds_lookup if_True)
  then show ?thesis
    unfolding m by auto
qed

lemmas eval_defs = updateOdds_def recomputeOdds_def lmsrOdds_def totalPool_def poolByOption_def
  calculateInitialOdds_def findActiveBets_def stakeOn_def falsy_def optionAt_def priceSum_def
  startTransaction_def stake_def yesNoMarket_def threeWayMarket_def alice_def

theorem lmsr_price_formula_witness:
  "0 < liquidity yesNoMarket
   \<and> 0 < totalPool (findActiveBets 7 (outside (startTransaction oneBetBook)))
   \<and> ''no'' \<in> set (options yesNoMarket)
   \<and> stakeOn (findActiveBets 7 (outside (startTransaction oneBetBook))) ''no'' = 0
   \<and> map_of (currentOdds (fst (updateOdds 7 yesNoMarket (startTransaction oneBetBook)))) ''no''
       = Some (1 / (1 + exp (100 / 1000)))
   \<and> map_of (currentOdds (fst (updateOdds 7 yesNoMarket (startTransaction oneBetBook)))) ''yes''
       = Some (1 / (1 + exp (- 100 / 1000)))"
proof -
  have l: "0 < liquidity yesNoMarket" by (simp add: yesNoMarket_def)
  have p: "0 < totalPool (findActiveBets 7 (outside (startTransaction oneBetBook)))"
    by (simp add: eval_defs oneBetBook_def)
  have n: "''no'' \<in> set (options yesNoMarket)
            \<or> ''no'' \<in> option ` set (findActiveBets 7 (outside (startTransaction oneBetBook)))"
    by (simp add: yesNoMarket_def)
  have y: "''yes'' \<in> set (options yesNoMarket)
            \<or> ''yes'' \<in> option ` set (findActiveBets 7 (outside (startTransaction oneBetBook)))"
    by (simp add: yesNoMarket_def)
  have bs: "findActiveBets 7 (outside (startTransaction oneBetBook)) = [stake 100 1 7 ''yes'' 100 (1 / 2) 0]"
    by (simp add: eval_defs oneBetBook_def)
  have tp: "totalPool [stake 100 1 7 ''yes'' 100 (1 / 2) 0] = 100"
    by (simp add: eval_defs)
  have sn: "stakeOn [stake 100 1 7 ''yes'' 100 (1 / 2) 0] ''no'' = 0"
     and sy: "stakeOn [stake 100 1 7 ''yes'' 100 (1 / 2) 0] ''yes'' = 100"
    by (simp_all add: eval_defs)
  show ?thesis
    using lmsr_price_formula [OF l p n] lmsr_price_formula [OF l p y] l p
    unfolding bs tp sn sy by (simp add: yesNoMarket_def)
qed

lemma initialOdds_lookup_multi:
  "mtype m \<noteq> Binary \<Longrightarrow>
   map_of (currentOdds (calculateInitialOdds m)) opt
     = (if opt \<in> set (options m) then Some (1 / real (length (options m))) else None)"
  by (simp add: calculateInitialOdds_def Let_def map_of_foldl_update)

lemma initialOdds_keys_multi:
  "mtype m \<noteq> Binary \<Longrightarrow> fst ` set (currentOdds (calculateInitialOdds m)) = set (options m)"
  by (simp add: calculateInitialOdds_def Let_def keys_foldl_update)

lemma initialOdds_distinct_multi:
  "mtype m \<noteq> Binary \<Longrightarrow> distinct (map fst (currentOdds (calculateInitialOdds m)))"
  by (simp add: calculateInitialOdds_def Let_def distinct_foldl_update)

lemma initialOdds_binary:
  "mtype m = Binary \<Longrightarrow> options m = [a, b] \<Longrightarrow>
   currentOdds (calculateInitialOdds m) = AList.update b (1 / 2) [(a, 1 / 2)]"
  by (simp add: calculateInitialOdds_def optionAt_def)

text \<open>
  Claim C5. When the total pool of the active bets is zero, \<open>updateOdds\<close> leaves the
  market with the initial vector: a binary market with the two options \<open>a\<close> and \<open>b\<close>
  has 0.5 for each and no other key; a market of another type has \<open>1 / N\<close> for each
  of its \<open>N = options.length\<close> options and no other key.
\<close>

theorem zero_pool_fallback:
  assumes "totalPool (findActiveBets mid (outside t)) = 0"
  shows "(mtype m = Binary \<and> options m = [a, b] \<longrightarrow>
            map_of (currentOdds (fst (updateOdds mid m t))) a = Some (1 / 2)
            \<and> map_of (currentOdds (fst (updateOdds mid m t))) b = Some (1 / 2)
            \<and> fst ` set (currentOdds (fst (updateOdds mid m t))) = {a, b})
         \<and> (mtype m \<noteq> Binary \<longrightarrow>
            (\<forall>opt\<in>set (options m).
               map_of (currentOdds (fst (updateOdds mid m t))) opt
                 = Some (1 / real (length (options m))))
            \<and> fst ` set (currentOdds (fst (updateOdds mid m t))) = set (options m))"
proof -
  have m: "fst (updateOdds mid m t) = calculateInitialOdds m"
    using assms by (simp add: updateOdds_market recomputeOdds_def)
  show ?thesis
    unfolding m
    by (auto simp: initialOdds_lookup_multi initialOdds_keys_multi initialOdds_binary
          update_conv' AList.dom_update)
qed

theorem zero_pool_fallback_witness:
  "totalPool (findActiveBets 7 (outside (startTransaction emptyBook))) = 0
   \<and> mtype yesNoMarket = Binary \<and> options yesNoMarket = [''yes'', ''no'']
   \<and> map_of (currentOdds (fst (updateOdds 7 yesNoMarket (startTransaction emptyBook)))) ''yes''
       = Some (1 / 2)
   \<and> map_of (currentOdds (fst (updateOdds 7 yesNoMarket (startTransaction emptyBook)))) ''no''
       = Some (1 / 2)
   \<and> totalPool (findActiveBets 9 (outside (startTransaction emptyBook))) = 0
   \<and> mtype threeWayMarket \<noteq> Binary \<and> ''c'' \<in> set (options threeWayMarket)
   \<and> map_of (currentOdds (fst (updateOdds 9 threeWayMarket (startTransaction emptyBook)))) ''c''
       = Some (1 / 3)"
proof -
  have z7: "totalPool (findActiveBets 7 (outside (startTransaction emptyBook))) = 0"
   and z9: "totalPool (findActiveBets 9 (outside (startTransaction emptyBook))) = 0"
    by (simp_all add: eval_defs emptyBook_def)
  have b: "mtype yesNoMarket = Binary \<and> options yesNoMarket = [''yes'', ''no'']"
    by (simp add: yesNoMarket_def)
  have c: "mtype threeWayMarket \<noteq> Binary" "''c'' \<in> set (options threeWayMarket)"
          "length (options threeWayMarket) = 3"
    by (simp_all add: threeWayMarket_def)
  show ?thesis
    using zero_pool_fallback [OF z7, of yesNoMarket "''yes''" "''no''"]
          zero_pool_fallback [OF z9, of threeWayMarket] z7 z9 b c
    by simp
qed

lemma logistic_sum: "1 / (1 + exp (x::real)) + 1 / (1 + exp (- x)) = 1"
proof -
  have nz: "1 + exp x \<noteq> 0"
    using one_plus_exp_pos [of x] by simp
  have "1 / (1 + exp (- x)) = exp x / (1 + exp x)"
    by (simp add: exp_minus field_simps)
  moreover have "1 / (1 + exp x) + exp x / (1 + exp x) = (1 + exp x) / (1 + exp x)"
    by (simp only: add_divide_distrib)
  moreover have "(1 + exp x) / (1 + exp x) = 1"
    using nz by (rule divide_self)
  ultimately show ?thesis
    by (simp only:)
qed

lemma two_option_stakes:
  "a \<noteq> b \<Longrightarrow> \<forall>x\<in>set bs. option x = a \<or> option x = b \<Longrightarrow>
   sum_list (map amount bs) = stakeOn bs a + stakeOn bs b"
  by (induction bs) (auto simp: stakeOn_def)

lemma lmsrOdds_two_options:
  assumes "options m = [a, b]" and "a \<noteq> b"
    and "\<forall>x\<in>set bs. option x = a \<or> option x = b"
  shows "sum_list (map snd (lmsrOdds m bs)) = 1"
proof -
  have keys: "fst ` set (lmsrOdds m bs) = {a, b}"
    using assms by (auto simp: lmsrOdds_keys)
  have total: "totalPool bs = stakeOn bs a + stakeOn bs b"
    using assms(2,3) by (simp add: totalPool_sum two_option_stakes)
  have pa: "the (map_of (lmsrOdds m bs) a)
              = 1 / (1 + exp ((stakeOn bs b - stakeOn bs a) / liquidity m))"
    using assms(1) by (simp add: lmsrOdds_lookup total)
  have pb: "the (map_of (lmsrOdds m bs) b)
              = 1 / (1 + exp (- ((stakeOn bs b - stakeOn bs a) / liquidity m)))"
    using assms(1) by (simp add: lmsrOdds_lookup total minus_divide_left)
  have "sum_list (map snd (lmsrOdds m bs)) = (\<Sum>k\<in>{a, b}. the (map_of (lmsrOdds m bs) k))"
    using sum_list_alist [OF lmsrOdds_distinct, of m bs] keys by simp
  also have "\<dots> = the (map_of (lmsrOdds m bs) a) + the (map_of (lmsrOdds m bs) b)"
    using assms(2) by simp
  finally show ?thesis
    unfolding pa pb by (simp only: logistic_sum)
qed

lemma initialOdds_sum_multi:
  assumes "mtype m \<noteq> Binary" and "distinct (options m)" and "options m \<noteq> []"
  shows "priceSum (calculateInitialOdds m) = 1"
proof -
  let ?al = "currentOdds (calculateInitialOdds m)"
  have "sum_list (map snd ?al) = (\<Sum>k\<in>set (options m). the (map_of ?al k))"
    using sum_list_alist [OF initialOdds_distinct_multi [OF assms(1)]]
    by (simp add: initialOdds_keys_multi [OF assms(1)])
  also have "\<dots> = (\<Sum>k\<in>set (options m). 1 / real (length (options m)))"
    by (intro sum.cong) (simp_all add: initialOdds_lookup_multi [OF assms(1)])
  also have "\<dots> = real (card (set (options m))) * (1 / real (length (options m)))"
    by simp
  also have "\<dots> = 1"
    using assms(2,3) by (simp add: distinct_card)
  finally show ?thesis by (simp add: priceSum_def)
qed

lemma initialOdds_sum_two:
  assumes "options m = [a, b]" and "a \<noteq> b"
  shows "priceSum (calculateInitialOdds m) = 1"
proof (cases "mtype m = Binary")
  case True
  then show ?thesis
    using assms by (simp add: priceSum_def initialOdds_binary)
next
  case False
  then show ?thesis
    using assms by (intro initialOdds_sum_multi) simp_all
qed

text \<open>
  Claim C6, as amended. A market with positive liquidity and exactly two distinct options
  has a price vector that sums to 1 after creation and after every recomputation over
  active bets placed on its options. A market of a non-binary type with distinct options has a vector that sums
  to 1 after creation and whenever the recomputation falls back to the initial vector
  (zero pool). Nothing is said about a market with more than two options and a nonzero
  pool: there the vector is not normalised, as the counterexample shows.
\<close>

theorem price_vector_sum:
  assumes "options m = [a, b]" and "a \<noteq> b" and "0 < liquidity m"
    and "\<forall>x\<in>set (findActiveBets mid (outside t)). option x = a \<or> option x = b"
  shows "priceSum (calculateInitialOdds m) = 1
         \<and> priceSum (fst (updateOdds mid m t)) = 1
         \<and> (mtype n \<noteq> Binary \<and> distinct (options n) \<and> options n \<noteq> [] \<longrightarrow>
              priceSum (calculateInitialOdds n) = 1
              \<and> (totalPool (findActiveBets nid (outside t)) = 0 \<longrightarrow>
                   priceSum (fst (updateOdds nid n t)) = 1))"
proof -
  have init: "priceSum (calculateInitialOdds m) = 1"
    using assms(1,2) by (rule initialOdds_sum_two)
  have "priceSum (fst (updateOdds mid m t)) = 1"
  proof (cases "totalPool (findActiveBets mid (outside t)) = 0")
    case True
    then show ?thesis
      using init by (simp add: updateOdds_market recomputeOdds_def)
  next
    case False
    then show ?thesis
      using lmsrOdds_two_options [OF assms(1,2,4)]
      by (simp add: updateOdds_market recomputeOdds_def priceSum_def)
  qed
  moreover have "priceSum (fst (updateOdds nid n t)) = priceSum (calculateInitialOdds n)"
    if "totalPool (findActiveBets nid (outside t)) = 0"
    using that by (simp add: updateOdds_market recomputeOdds_def)
  ultimately show ?thesis
    using init by (auto simp: initialOdds_sum_multi)
qed

theorem price_vector_sum_witness:
  "options yesNoMarket = [''yes'', ''no''] \<and> ''yes'' \<noteq> ''no'' \<and> 0 < liquidity yesNoMarket
   \<and> map option (findActiveBets 7 (outside (startTransaction oneBetBook))) = [''yes'']
   \<and> priceSum (calculateInitialOdds yesNoMarket) = 1
   \<and> priceSum (fst (updateOdds 7 yesNoMarket (startTransaction oneBetBook))) = 1
   \<and> mtype threeWayMarket \<noteq> Binary \<and> distinct (options threeWayMarket)
   \<and> options threeWayMarket \<noteq> []
   \<and> priceSum (calculateInitialOdds threeWayMarket) = 1
   \<and> totalPool (findActiveBets 9 (outside (startTransaction oneBetBook))) = 0
   \<and> priceSum (fst (updateOdds 9 threeWayMarket (startTransaction oneBetBook))) = 1"
proof -
  have h1: "options yesNoMarket = [''yes'', ''no'']" and h2: "''yes'' \<noteq> ''no''"
   and h3: "0 < liquidity yesNoMarket"
    by (simp_all add: yesNoMarket_def)
  have h4: "\<forall>x\<in>set (findActiveBets 7 (outside (startTransaction oneBetBook))).
              option x = ''yes'' \<or> option x = ''no''"
    by (simp add: eval_defs oneBetBook_def)
  have n: "mtype threeWayMarket \<noteq> Binary" "distinct (options threeWayMarket)"
          "options threeWayMarket \<noteq> []"
    by (simp_all add: threeWayMarket_def)
  have z: "totalPool (findActiveBets 9 (outside (startTransaction oneBetBook))) = 0"
    by (simp add: eval_defs oneBetBook_def)
  have h5: "map option (findActiveBets 7 (outside (startTransaction oneBetBook))) = [''yes'']"
    by (simp add: eval_defs oneBetBook_def)
  show ?thesis
    using price_vector_sum [OF h1 h2 h3 h4, of threeWayMarket 9] h1 h2 h3 h5 n z
    by simp
qed

text \<open>
  Counterexample to C6 as stated: an open market with three options, liquidity 1000 and
  one active bet of 1000 on the first option has prices that sum to more than 1.2.
\<close>

theorem price_vector_sum_counterexample:
  "mstatus threeWayMarket = Open
   \<and> 6 / 5 < priceSum (fst (updateOdds 9 threeWayMarket (startTransaction threeWayBook)))"
proof -
  have v: "priceSum (fst (updateOdds 9 threeWayMarket (startTransaction threeWayBook)))
             = 1 / (1 + exp (- 1)) + (1 / (1 + exp 1) + 1 / (1 + exp 1))"
    using one_plus_exp_pos [of 1] one_plus_exp_pos [of "- 1"]
    by (simp add: eval_defs threeWayBook_def Let_def)
  have "1 / 4 \<le> 1 / (1 + exp (1::real))"
    using exp_le one_plus_exp_pos [of 1] by (simp add: field_simps)
  moreover have "1 / (1 + exp (- 1)) + 1 / (1 + exp (1::real)) = 1"
    using logistic_sum [of 1] by simp
  ultimately have "6 / 5 < 1 / (1 + exp (- 1)) + (1 / (1 + exp 1) + 1 / (1 + exp (1::real)))"
    by simp
  then show ?thesis
    unfolding v by (simp add: threeWayMarket_def)
qed

section \<open>Bet lifecycle\<close>

text \<open>
  Claim C7, as amended. A bet settled by \<open>settle\<close> is won or lost, and its
  \<open>actualPayout\<close> is \<open>potentialPayout\<close> if it is won and 0 if it is lost (so, for
  a nonzero \<open>potentialPayout\<close>, the two are equal iff the status is won). A bet
  refunded by \<open>refund\<close> has \<open>actualPayout\<close> equal to its stake \<open>amount\<close>, not 0.
\<close>

theorem settled_payout:
  "status (settle res now b) = (if option b = res then Won else Lost)
   \<and> actualPayout (settle res now b)
       = (if status (settle res now b) = Won then potentialPayout (settle res now b) else 0)
   \<and> (potentialPayout b \<noteq> 0 \<longrightarrow>
        (actualPayout (settle res now b) = potentialPayout (settle res now b))
          = (status (settle res now b) = Won))
   \<and> status (refund now b) = Refunded
   \<and> actualPayout (refund now b) = amount (refund now b)"
  by (simp add: settle_def refund_def Let_def)

theorem settled_payout_witness:
  "potentialPayout (stake 100 1 7 ''yes'' 100 (1 / 2) 0) \<noteq> 0
   \<and> status (settle ''no'' 5 (stake 100 1 7 ''yes'' 100 (1 / 2) 0)) = Lost
   \<and> actualPayout (settle ''no'' 5 (stake 100 1 7 ''yes'' 100 (1 / 2) 0)) = 0
   \<and> status (settle ''yes'' 5 (stake 100 1 7 ''yes'' 100 (1 / 2) 0)) = Won
   \<and> actualPayout (settle ''yes'' 5 (stake 100 1 7 ''yes'' 100 (1 / 2) 0)) = 200
   \<and> actualPayout (refund 5 (stake 100 1 7 ''yes'' 100 (1 / 2) 0)) = 100"
  using settled_payout [of "''no''" 5 "stake 100 1 7 ''yes'' 100 (1 / 2) 0"]
        settled_payout [of "''yes''" 5 "stake 100 1 7 ''yes'' 100 (1 / 2) 0"]
  by (simp add: stake_def settle_def refund_def Let_def)

text \<open>
  Counterexample to C7 as stated: a refunded bet of 100 is in a terminal status other
  than won, and its \<open>actualPayout\<close> is 100, not 0.
\<close>

theorem settled_payout_counterexample:
  "status (refund 5 (stake 100 1 7 ''yes'' 100 (1 / 2) 0)) = Refunded
   \<and> status (refund 5 (stake 100 1 7 ''yes'' 100 (1 / 2) 0)) \<noteq> Won
   \<and> actualPayout (refund 5 (stake 100 1 7 ''yes'' 100 (1 / 2) 0)) = 100
   \<and> actualPayout (refund 5 (stake 100 1 7 ''yes'' 100 (1 / 2) 0)) \<noteq> 0"
  by (simp add: refund_def stake_def)

section \<open>Placement and cancellation\<close>


lemmas handler_defs = placeBet_def placeBetTransaction_def placeBetDebit_def cancelBet_def
  cancelBetTransaction_def cancelBetRefund_def finishTransaction_def resolveMarket_def
  createTransaction_def calculatePotentialPayout_def isOpen_def resolve_def settle_def
  refund_def isRejected_def findActiveBets_def

text \<open>
  Claim C9. When the user already holds an active bet on the market, \<open>placeBet\<close> on
  that market is rejected by an early return (status 400, or 401/404 when the user or the
  market is not stored) and the database is unchanged: balance, bets, market and ledger.
  When the request passes the checks made before it (stored user, non-empty option, amount
  at least 1, sufficient balance, open market, valid option), the rejection is the 400
  "You already have an active bet on this market".
\<close>

theorem second_bet_rejected:
  assumes "\<exists>b\<in>set (bets s). userId b = uid \<and> marketId b = mid \<and> status b = Active"
  shows "snd (placeBet uid newId mid opt amt now s) = s
         \<and> (\<exists>code msg. fst (placeBet uid newId mid opt amt now s) = Rejected code msg
                         \<and> code \<in> {400, 401, 404})
         \<and> (users s uid = Some user \<and> opt \<noteq> [] \<and> 1 \<le> amt \<and> real_of_int amt \<le> balance user
              \<and> markets s mid = Some market \<and> isOpen now market \<and> opt \<in> set (options market)
             \<longrightarrow> fst (placeBet uid newId mid opt amt now s)
                   = Rejected 400 ''You already have an active bet on this market'')"
proof -
  from assms have held:
    "find (\<lambda>b. userId b = uid \<and> marketId b = mid \<and> status b = Active) (bets s) \<noteq> None"
    by (auto simp: find_None_iff)
  show ?thesis
    using held by (auto simp: placeBet_def split: option.splits)
qed

theorem second_bet_rejected_witness:
  "placeBet 1 101 7 ''no'' 50 10 oneBetBook
     = (Rejected 400 ''You already have an active bet on this market'', oneBetBook)"
proof -
  have h: "\<exists>b\<in>set (bets oneBetBook). userId b = 1 \<and> marketId b = 7 \<and> status b = Active"
    by (simp add: oneBetBook_def stake_def)
  have p: "users oneBetBook 1 = Some alice \<and> ''no'' \<noteq> [] \<and> (1::int) \<le> 50
           \<and> real_of_int 50 \<le> balance alice
           \<and> markets oneBetBook 7 = Some yesNoMarket \<and> isOpen 10 yesNoMarket
           \<and> ''no'' \<in> set (options yesNoMarket)"
    by (simp add: oneBetBook_def alice_def yesNoMarket_def isOpen_def)
  show ?thesis
    using second_bet_rejected [OF h, of 101 "''no''" 50 10 alice yesNoMarket] p
    by (simp add: prod_eq_iff)
qed

lemma finishTransaction_not_rejected: "\<not> isRejected (fst (finishTransaction r))"
proof (cases r)
  case (Pair out t)
  then show ?thesis
    by (cases out) (simp_all add: finishTransaction_def isRejected_def)
qed

text \<open>
  Claim C8, as amended. For an active bet of the requesting user in an open market,
  \<open>cancelBet\<close> is not rejected when the elapsed time since \<open>createdAt\<close> is at most
  5 minutes (so at 4:59 and also at exactly 5:00): the handler passes the window check
  and goes on to the refund transaction. When the elapsed time exceeds 5 minutes the
  request is rejected with status 400 and the database is unchanged. How the refund
  transaction ends is not part of the statement.
\<close>

theorem cancel_window:
  assumes "users s uid = Some user"
    and "find (\<lambda>b. betId b = bid) (bets s) = Some bet"
    and "userId bet = uid" and "status bet = Active"
    and "markets s (marketId bet) = Some market" and "isOpen now market"
  shows "(now - createdAt bet \<le> 5 * 60 * 1000 \<longrightarrow>
            cancelBet uid bid now s = finishTransaction (cancelBetTransaction uid market bet now s)
            \<and> \<not> isRejected (fst (cancelBet uid bid now s)))
         \<and> (5 * 60 * 1000 < now - createdAt bet \<longrightarrow>
            cancelBet uid bid now s
              = (Rejected 400 ''Can only cancel bets within 5 minutes of placement'', s))"
proof -
  have late: "cancelBet uid bid now s
                = (Rejected 400 ''Can only cancel bets within 5 minutes of placement'', s)"
    if "5 * 60 * 1000 < now - createdAt bet"
    using that assms by (simp add: cancelBet_def)
  have early: "cancelBet uid bid now s
                 = finishTransaction (cancelBetTransaction uid market bet now s)"
    if "now - createdAt bet \<le> 5 * 60 * 1000"
    using that assms by (simp add: cancelBet_def)
  show ?thesis
    using late early finishTransaction_not_rejected by auto
qed

theorem cancel_window_witness:
  "\<not> isRejected (fst (cancelBet 1 100 (4 * 60 * 1000 + 59 * 1000) oneBetBook))
   \<and> \<not> isRejected (fst (cancelBet 1 100 (5 * 60 * 1000) oneBetBook))
   \<and> cancelBet 1 100 (5 * 60 * 1000 + 1) oneBetBook
       = (Rejected 400 ''Can only cancel bets within 5 minutes of placement'', oneBetBook)"
proof -
  have h: "users oneBetBook 1 = Some alice"
    "find (\<lambda>b. betId b = 100) (bets oneBetBook) = Some (stake 100 1 7 ''yes'' 100 (1 / 2) 0)"
    "userId (stake 100 1 7 ''yes'' 100 (1 / 2) 0) = 1"
    "status (stake 100 1 7 ''yes'' 100 (1 / 2) 0) = Active"
    "markets oneBetBook (marketId (stake 100 1 7 ''yes'' 100 (1 / 2) 0)) = Some yesNoMarket"
    by (simp_all add: oneBetBook_def alice_def stake_def)
  have o: "isOpen t yesNoMarket" if "t < 1000000" for t
    using that by (simp add: isOpen_def yesNoMarket_def)
  have c: "createdAt (stake 100 1 7 ''yes'' 100 (1 / 2) 0) = 0"
    by (simp add: stake_def)
  show ?thesis
    using cancel_window [OF h, of "4 * 60 * 1000 + 59 * 1000"]
          cancel_window [OF h, of "5 * 60 * 1000"]
          cancel_window [OF h, of "5 * 60 * 1000 + 1"] o c
    by (simp add: finishTransaction_not_rejected)
qed

text \<open>
  Counterexample to C8 as stated: a cancellation exactly 5 minutes after the bet was
  created is not rejected; the handler enters the refund transaction.
\<close>

theorem cancel_window_counterexample:
  "createdAt (stake 100 1 7 ''yes'' 100 (1 / 2) 0) = 0
   \<and> find (\<lambda>b. betId b = 100) (bets oneBetBook) = Some (stake 100 1 7 ''yes'' 100 (1 / 2) 0)
   \<and> \<not> isRejected (fst (cancelBet 1 100 (5 * 60 * 1000) oneBetBook))
   \<and> cancelBet 1 100 (5 * 60 * 1000) oneBetBook
       = finishTransaction
           (cancelBetTransaction 1 yesNoMarket (stake 100 1 7 ''yes'' 100 (1 / 2) 0)
              (5 * 60 * 1000) oneBetBook)"
  by (simp add: cancelBet_def isOpen_def finishTransaction_not_rejected oneBetBook_def
        alice_def yesNoMarket_def stake_def)


section \<open>The ledger\<close>














section \<open>Resolution\<close>

text \<open>
  With an active bet on the market, an accepted resolution saves the resolved market and
  ends in the outer \<open>catch\<close>: no bet, no user and no ledger entry is written.
\<close>

lemma resolveMarket_with_active_bets:
  assumes "markets s mid = Some market" and "mstatus market = Open \<or> mstatus market = Closed"
    and "res \<noteq> []" and "res \<in> set (options market)"
    and "findActiveBets mid s \<noteq> []"
  shows "resolveMarket mid res now s
           = (ServerError ReferenceError, saveMarket mid (resolve res now market) s)"
  using assms
  by (auto simp: resolveMarket_def Let_def findActiveBets_def saveMarket_def)

text \<open>
  Claim C3 fails on the code. With three active bets on the winning option, the resolve
  handler saves the resolved market and raises ReferenceError at the first
  \<open>mongoose.startSession()\<close>, outside the \<open>try\<close> block of the iteration: the loop
  ends, the handler answers 500, and all three bets are still active; no user and no
  ledger entry is written.
\<close>

theorem settlement_never_runs:
  "fst (resolveMarket 7 ''yes'' 50 threeBetBook) = ServerError ReferenceError
   \<and> map status (bets threeBetBook) = [Active, Active, Active]
   \<and> map option (bets threeBetBook) = [''yes'', ''yes'', ''yes'']
   \<and> map status (bets (snd (resolveMarket 7 ''yes'' 50 threeBetBook))) = [Active, Active, Active]
   \<and> map_option mstatus (markets (snd (resolveMarket 7 ''yes'' 50 threeBetBook)) 7)
       = Some Resolved
   \<and> users (snd (resolveMarket 7 ''yes'' 50 threeBetBook)) = users threeBetBook
   \<and> ledger (snd (resolveMarket 7 ''yes'' 50 threeBetBook)) = []"
  by (simp add: resolveMarket_def resolve_def saveMarket_def findActiveBets_def Let_def
        threeBetBook_def yesNoMarket_def stake_def)

text \<open>
  Claim C2 fails on the code. \<open>Bet.settle\<close> on its own sets a losing bet to lost with
  \<open>actualPayout = 0\<close>, but the settlement loop never calls it: resolving the market
  of one active bet against the bet raises ReferenceError before the \<open>try\<close> block. The
  stored bet stays active and the ledger gets no entry (the balance is unchanged).
\<close>

theorem losing_bet_not_settled:
  "status (settle ''no'' 50 (stake 100 1 7 ''yes'' 100 (1 / 2) 0)) = Lost
   \<and> actualPayout (settle ''no'' 50 (stake 100 1 7 ''yes'' 100 (1 / 2) 0)) = 0
   \<and> bets oneBetBook = [stake 100 1 7 ''yes'' 100 (1 / 2) 0]
   \<and> fst (resolveMarket 7 ''no'' 50 oneBetBook) = ServerError ReferenceError
   \<and> map_option resolution (markets (snd (resolveMarket 7 ''no'' 50 oneBetBook)) 7)
       = Some (Some ''no'')
   \<and> map status (bets (snd (resolveMarket 7 ''no'' 50 oneBetBook))) = [Active]
   \<and> map actualPayout (bets (snd (resolveMarket 7 ''no'' 50 oneBetBook))) = [0]
   \<and> map_option balance (users (snd (resolveMarket 7 ''no'' 50 oneBetBook)) 1) = Some 1000
   \<and> ledger (snd (resolveMarket 7 ''no'' 50 oneBetBook)) = []"
  by (simp add: resolveMarket_def resolve_def saveMarket_def findActiveBets_def Let_def
        settle_def oneBetBook_def alice_def yesNoMarket_def stake_def)

text \<open>
  Claim C10 fails on the code. For a user whose \<open>totalBets\<close> is 1 after a placement,
  resolving the market of the bet raises ReferenceError before the loop body increments
  the counter or calls \<open>updateWinRate\<close>: \<open>totalBets\<close> stays 1 and \<open>winRate\<close>
  stays as it was. (\<open>updateWinRate\<close> on its own computes
  \<open>winningBets / totalBets * 100\<close>.)
\<close>

theorem total_bets_after_resolution:
  "map_option totalBets (users placedBook 2) = Some 1
   \<and> map userId (findActiveBets 7 placedBook) = [2]
   \<and> fst (resolveMarket 7 ''yes'' 50 placedBook) = ServerError ReferenceError
   \<and> map_option mstatus (markets (snd (resolveMarket 7 ''yes'' 50 placedBook)) 7) = Some Resolved
   \<and> map status (bets (snd (resolveMarket 7 ''yes'' 50 placedBook))) = [Active]
   \<and> map_option totalBets (users (snd (resolveMarket 7 ''yes'' 50 placedBook)) 2) = Some 1
   \<and> map_option winningBets (users (snd (resolveMarket 7 ''yes'' 50 placedBook)) 2) = Some 0
   \<and> map_option winRate (users (snd (resolveMarket 7 ''yes'' 50 placedBook)) 2) = Some 0
   \<and> winRate (updateWinRate (bob\<lparr>winningBets := 1, totalBets := 2\<rparr>)) = 50"
  by (simp add: resolveMarket_def resolve_def saveMarket_def findActiveBets_def Let_def
        updateWinRate_def placedBook_def bob_def yesNoMarket_def stake_def)

end
